theory Spec2Isabelle
  imports Main "HOL-Library.Word" "HOL-Library.Multiset"
begin

section \<open>Data model\<close>

subsection \<open>Instants of time\<close>

text \<open>
  A Go \<open>time.Time\<close> read through its accessors \<open>sec()\<close> and \<open>nsec()\<close>: seconds since
  January 1 of year 1, 00:00:00 UTC, and nanoseconds within the second. The location does
  not take part in \<open>IsZero\<close>, \<open>Before\<close> or \<open>After\<close>, and the timestamps of this program
  come from stored JSON, so they carry no monotonic clock reading.
\<close>

record Time =
  sec :: int
  nsec :: int

definition IsZero :: "Time \<Rightarrow> bool" where
  "IsZero t = (sec t = 0 \<and> nsec t = 0)"

definition After :: "Time \<Rightarrow> Time \<Rightarrow> bool" where
  "After t u = (sec t > sec u \<or> sec t = sec u \<and> nsec t > nsec u)"

definition Before :: "Time \<Rightarrow> Time \<Rightarrow> bool" where
  "Before t u = (sec t < sec u \<or> sec t = sec u \<and> nsec t < nsec u)"

definition zeroTime :: Time where
  "zeroTime = \<lparr>sec = 0, nsec = 0\<rparr>"

subsection \<open>ID maps (util.go)\<close>

text \<open>
  \<open>idtools.IDMap\<close> has three fields of Go type \<open>int\<close>, which is 64 bits wide on the
  platforms this program is built for; \<open>rspec.LinuxIDMapping\<close> has three \<open>uint32\<close> fields.
  The conversion \<open>uint32(x)\<close> keeps the low 32 bits, \<open>int(y)\<close> zero-extends.
\<close>

record IDMap =
  ContainerID :: "64 word"
  HostID :: "64 word"
  Size :: "64 word"

record LinuxIDMapping =
  HostID :: "32 word"
  ContainerID :: "32 word"
  Size :: "32 word"

definition toLinuxIDMapping :: "IDMap \<Rightarrow> LinuxIDMapping" where
  "toLinuxIDMapping m =
     \<lparr>LinuxIDMapping.HostID = ucast (IDMap.HostID m),
      LinuxIDMapping.ContainerID = ucast (IDMap.ContainerID m),
      LinuxIDMapping.Size = ucast (IDMap.Size m)\<rparr>"

definition toIDMap :: "LinuxIDMapping \<Rightarrow> IDMap" where
  "toIDMap m =
     \<lparr>IDMap.ContainerID = ucast (LinuxIDMapping.ContainerID m),
      IDMap.HostID = ucast (LinuxIDMapping.HostID m),
      IDMap.Size = ucast (LinuxIDMapping.Size m)\<rparr>"

text \<open>Each of the two loops appends one converted entry per input entry, in order.\<close>

definition convertStorageIDMaps ::
  "IDMap list \<Rightarrow> IDMap list \<Rightarrow> LinuxIDMapping list \<times> LinuxIDMapping list" where
  "convertStorageIDMaps UIDMap GIDMap = (map toLinuxIDMapping UIDMap, map toLinuxIDMapping GIDMap)"

definition convertRuntimeIDMaps ::
  "LinuxIDMapping list \<Rightarrow> LinuxIDMapping list \<Rightarrow> IDMap list \<times> IDMap list" where
  "convertRuntimeIDMaps UIDMap GIDMap = (map toIDMap UIDMap, map toIDMap GIDMap)"

text \<open>A Go \<open>int\<close> that is non-negative and fits an unsigned 32-bit integer.\<close>

definition fits32 :: "64 word \<Rightarrow> bool" where
  "fits32 x = (0 \<le> sint x \<and> sint x < 2 ^ 32)"

definition idmapFits32 :: "IDMap \<Rightarrow> bool" where
  "idmapFits32 m = (fits32 (IDMap.HostID m) \<and> fits32 (IDMap.ContainerID m) \<and> fits32 (IDMap.Size m))"

subsection \<open>The string functions of Go's library that images.go calls\<close>

text \<open>
  Go strings are byte sequences, here \<open>string\<close>. Every separator images.go passes to
  \<open>strings.Split\<close>, \<open>strings.SplitN\<close> and \<open>strings.Contains\<close> is a single byte
  (\<open>","\<close>, \<open>"="\<close>, \<open>":"\<close>), so the separator is a \<open>char\<close>.
\<close>

definition Contains :: "string \<Rightarrow> char \<Rightarrow> bool" where
  "Contains s sep = (sep \<in> set s)"

text \<open>
  \<open>strings.SplitN(s, sep, n)\<close>: no pieces for \<open>n = 0\<close>, otherwise at most \<open>n\<close> pieces, the
  last one being the unsplit remainder. The result always has at least one piece for
  \<open>n > 0\<close>.
\<close>

fun SplitN :: "string \<Rightarrow> char \<Rightarrow> nat \<Rightarrow> string list" where
  "SplitN s sep 0 = []"
| "SplitN s sep (Suc 0) = [s]"
| "SplitN s sep (Suc (Suc n)) =
     (case dropWhile (\<lambda>c. c \<noteq> sep) s of
        [] \<Rightarrow> [s]
      | _ # rest \<Rightarrow> takeWhile (\<lambda>c. c \<noteq> sep) s # SplitN rest sep (Suc n))"

text \<open>\<open>strings.Split(s, sep)\<close> cuts at every separator: one piece more than separators.\<close>

definition Split :: "string \<Rightarrow> char \<Rightarrow> string list" where
  "Split s sep = SplitN s sep (Suc (length s))"

text \<open>\<open>strings.HasSuffix\<close> and \<open>strings.HasPrefix\<close>, as the library writes them.\<close>

definition HasSuffix :: "string \<Rightarrow> string \<Rightarrow> bool" where
  "HasSuffix s suffix =
     (length s \<ge> length suffix \<and> drop (length s - length suffix) s = suffix)"

definition HasPrefix :: "string \<Rightarrow> string \<Rightarrow> bool" where
  "HasPrefix s prefix = (length s \<ge> length prefix \<and> take (length prefix) s = prefix)"

text \<open>
  \<open>strings.TrimSpace\<close> removes the leading and trailing runes that \<open>unicode.IsSpace\<close>
  accepts. These are the UTF-8 encodings of all such runes: the six ASCII ones, U+0085,
  U+00A0, U+1680, U+2000 to U+200A, U+2028, U+2029, U+202F, U+205F and U+3000. A byte
  sequence that is not one of these decodes to a rune that is no space (or to the error
  rune), where trimming stops.
\<close>

definition spaceRunes :: "string list" where
  "spaceRunes =
     [[CHR 0x09], [CHR 0x0A], [CHR 0x0B], [CHR 0x0C], [CHR 0x0D], [CHR 0x20],
      [CHR 0xC2, CHR 0x85], [CHR 0xC2, CHR 0xA0],
      [CHR 0xE1, CHR 0x9A, CHR 0x80],
      [CHR 0xE2, CHR 0x80, CHR 0x80], [CHR 0xE2, CHR 0x80, CHR 0x81],
      [CHR 0xE2, CHR 0x80, CHR 0x82], [CHR 0xE2, CHR 0x80, CHR 0x83],
      [CHR 0xE2, CHR 0x80, CHR 0x84], [CHR 0xE2, CHR 0x80, CHR 0x85],
      [CHR 0xE2, CHR 0x80, CHR 0x86], [CHR 0xE2, CHR 0x80, CHR 0x87],
      [CHR 0xE2, CHR 0x80, CHR 0x88], [CHR 0xE2, CHR 0x80, CHR 0x89],
      [CHR 0xE2, CHR 0x80, CHR 0x8A],
      [CHR 0xE2, CHR 0x80, CHR 0xA8], [CHR 0xE2, CHR 0x80, CHR 0xA9],
      [CHR 0xE2, CHR 0x80, CHR 0xAF], [CHR 0xE2, CHR 0x81, CHR 0x9F],
      [CHR 0xE3, CHR 0x80, CHR 0x80]]"

text \<open>The length of the first of the given byte sequences that starts \<open>s\<close>, or 0.\<close>

fun leadingLen :: "string list \<Rightarrow> string \<Rightarrow> nat" where
  "leadingLen [] s = 0"
| "leadingLen (r # rs) s = (if r \<noteq> [] \<and> HasPrefix s r then length r else leadingLen rs s)"

text \<open>
  Dropping leading sequences again and again; the counter bounds the number of rounds by
  the length of the string, which no run of trimmed runes exceeds.
\<close>

fun trimLeading :: "string list \<Rightarrow> nat \<Rightarrow> string \<Rightarrow> string" where
  "trimLeading rs 0 s = s"
| "trimLeading rs (Suc k) s =
     (if leadingLen rs s = 0 then s else trimLeading rs k (drop (leadingLen rs s) s))"

definition TrimLeftSpace :: "string \<Rightarrow> string" where
  "TrimLeftSpace s = trimLeading spaceRunes (length s) s"

definition TrimRightSpace :: "string \<Rightarrow> string" where
  "TrimRightSpace s = rev (trimLeading (map rev spaceRunes) (length s) (rev s))"

definition TrimSpace :: "string \<Rightarrow> string" where
  "TrimSpace s = TrimRightSpace (TrimLeftSpace s)"

subsection \<open>Stored images and filter parameters (images.go)\<close>

text \<open>
  The fields of \<open>storage.Image\<close> that images.go reads. Digests are kept in their string
  form, which is all the listing uses.
\<close>

record Image =
  ID :: string
  Names :: "string list"
  Digest :: string
  Digests :: "string list"
  Created :: Time
  ReadOnly :: bool

record filterParams =
  dangling :: string
  label :: string
  beforeImage :: string
  sinceImage :: string
  beforeDate :: Time
  sinceDate :: Time
  referencePattern :: string
  readOnly :: string

text \<open>
  What \<open>reference.ParseNormalizedNamed\<close> returns for a name it accepts: the normalized
  repository name (\<open>Name()\<close>) and, when the reference is tagged, its tag (\<open>Tag()\<close>).
\<close>

record Named =
  Name :: string
  Tag :: "string option"

text \<open>
  What \<open>Inspect\<close> returns of an image's configuration: the creation time, a pointer that
  may be nil, and the labels. The labels are a Go map; the list holds its entries in the
  order in which one \<open>range\<close> loop visits them, each key once.
\<close>

record ImageInspectInfo =
  InspectCreated :: "Time option"
  Labels :: "(string \<times> string) list"

text \<open>
  Opening an image for inspection takes three calls, each of which can fail with a message:
  \<open>ParseStoreReference\<close>, \<open>NewImage\<close> and \<open>Inspect\<close>.
\<close>

datatype inspectFailure =
  ParseStoreReferenceFailed string
  | NewImageFailed string
  | InspectFailed string

text \<open>
  Errors and panics as values. \<open>Errorf\<close> keeps the format string and the arguments of
  \<open>fmt.Errorf\<close> and \<open>errors.Errorf\<close> apart, \<open>Wrapf\<close> is \<open>errors.Wrapf\<close>, and \<open>Opaque\<close> is
  an error handed up unchanged from a collaborator.
\<close>

datatype failure =
  Errorf string "string list"
  | Wrapf failure string
  | Opaque string
  | PanicIndexOutOfRange
  | PanicNilDereference

fun isPanic :: "failure \<Rightarrow> bool" where
  "isPanic PanicIndexOutOfRange = True"
| "isPanic PanicNilDereference = True"
| "isPanic err = False"

text \<open>
  The collaborators outside this repository, as the functions of their arguments that this
  program observes.
\<close>

record Env =
  ParseNormalizedNamed :: "string \<Rightarrow> Named option"
  inspect :: "Image \<Rightarrow> inspectFailure + ImageInspectInfo"
  getDateAndSize :: "Image \<Rightarrow> Time \<times> int"
  imageIsParent :: "Image \<Rightarrow> bool"
  HumanDuration :: "Time \<Rightarrow> string"

section \<open>Filter predicates (images.go)\<close>

definition matchesDangling :: "string \<Rightarrow> string \<Rightarrow> bool" where
  "matchesDangling name danglingArg =
     (if danglingArg = ''false'' \<and> name \<noteq> [] then True
      else if danglingArg = ''true'' \<and> name = [] then True
      else False)"

definition matchesReadOnly :: "Image \<Rightarrow> string \<Rightarrow> bool" where
  "matchesReadOnly img readOnlyArg =
     (if readOnlyArg = ''false'' \<and> \<not> ReadOnly img then True
      else if readOnlyArg = ''true'' \<and> ReadOnly img then True
      else False)"

text \<open>
  The loop of \<open>matchesLabel\<close> over the labels. \<open>pair\<close> comes from \<open>SplitN\<close> with \<open>n = 2\<close>
  and so has one or two elements.
\<close>

fun matchesLabelLoop :: "string list \<Rightarrow> (string \<times> string) list \<Rightarrow> bool" where
  "matchesLabelLoop pair [] = False"
| "matchesLabelLoop pair ((key, value) # rest) =
     (if key = pair ! 0 then
        (if length pair = 2 then
           (if value = pair ! 1 then True else matchesLabelLoop pair rest)
         else False)
      else matchesLabelLoop pair rest)"

definition matchesLabel :: "Env \<Rightarrow> Image \<Rightarrow> string \<Rightarrow> bool" where
  "matchesLabel env img labelArg =
     (case inspect env img of
        Inl err \<Rightarrow> False
      | Inr info \<Rightarrow> matchesLabelLoop (SplitN labelArg (CHR ''='') 2) (Labels info))"

definition matchesBeforeImage :: "Image \<Rightarrow> filterParams \<Rightarrow> bool" where
  "matchesBeforeImage img params =
     (IsZero (Created img) \<or> Before (Created img) (beforeDate params))"

definition matchesSinceImage :: "Image \<Rightarrow> filterParams \<Rightarrow> bool" where
  "matchesSinceImage img params =
     (IsZero (Created img) \<or> After (Created img) (sinceDate params))"

definition matchesID :: "string \<Rightarrow> string \<Rightarrow> bool" where
  "matchesID imageID argID = HasPrefix imageID argID"

text \<open>
  With a colon in \<open>argName\<close>, \<open>Split\<close> returns at least two pieces, so \<open>splitArg[0]\<close> and
  \<open>splitArg[1]\<close> are in range.
\<close>

definition matchesReference :: "Env \<Rightarrow> string \<Rightarrow> string \<Rightarrow> bool" where
  "matchesReference env imageName argName =
     (if argName = [] then True
      else if imageName = [] then False
      else
        (case ParseNormalizedNamed env imageName of
           None \<Rightarrow> False
         | Some named \<Rightarrow>
             if Contains argName (CHR '':'') then
               (let splitArg = Split argName (CHR '':'') in
                  case Tag named of
                    Some tagged \<Rightarrow>
                      (Name named = splitArg ! 0 \<or> HasSuffix (Name named) (''/'' @ splitArg ! 0))
                      \<and> tagged = splitArg ! 1
                  | None \<Rightarrow> False)
             else Name named = argName \<or> HasSuffix (Name named) (''/'' @ argName)))"

text \<open>A nil \<open>*filterParams\<close> is \<open>None\<close>.\<close>

definition matchesFilter :: "Env \<Rightarrow> Image \<Rightarrow> string \<Rightarrow> filterParams option \<Rightarrow> bool" where
  "matchesFilter env img name filters =
     (case filters of
        None \<Rightarrow> True
      | Some params \<Rightarrow>
          if dangling params \<noteq> [] \<and> \<not> matchesDangling name (dangling params) then False
          else if label params \<noteq> [] \<and> \<not> matchesLabel env img (label params) then False
          else if beforeImage params \<noteq> [] \<and> \<not> matchesBeforeImage img params then False
          else if sinceImage params \<noteq> [] \<and> \<not> matchesSinceImage img params then False
          else if referencePattern params \<noteq> []
                  \<and> \<not> matchesReference env name (referencePattern params) then False
          else if readOnly params \<noteq> [] \<and> \<not> matchesReadOnly img (readOnly params) then False
          else True)"

section \<open>Parsing the filter (images.go)\<close>

text \<open>
  \<open>setFilterDate\<close>: the first name, image by image, that matches \<open>imgName\<close> decides; the
  image is opened and inspected, and \<open>*inspect.Created\<close> dereferences its creation time.
\<close>

definition inspectDate :: "Env \<Rightarrow> Image \<Rightarrow> failure + Time" where
  "inspectDate env img =
     (case inspect env img of
        Inl (ParseStoreReferenceFailed err) \<Rightarrow>
          Inl (Errorf ''error parsing reference to image %q: %v'' [Image.ID img, err])
      | Inl (NewImageFailed err) \<Rightarrow>
          Inl (Errorf ''error reading image %q: %v'' [Image.ID img, err])
      | Inl (InspectFailed err) \<Rightarrow>
          Inl (Errorf ''error inspecting image %q: %v'' [Image.ID img, err])
      | Inr info \<Rightarrow>
          (case InspectCreated info of
             None \<Rightarrow> Inl PanicNilDereference
           | Some date \<Rightarrow> Inr date))"

fun setFilterDateNames :: "Env \<Rightarrow> Image \<Rightarrow> string list \<Rightarrow> string \<Rightarrow> (failure + Time) option" where
  "setFilterDateNames env img [] imgName = None"
| "setFilterDateNames env img (name # names) imgName =
     (if matchesReference env name imgName then Some (inspectDate env img)
      else setFilterDateNames env img names imgName)"

fun setFilterDate :: "Env \<Rightarrow> Image list \<Rightarrow> string \<Rightarrow> failure + Time" where
  "setFilterDate env [] imgName = Inl (Errorf ''could not locate image %q'' [imgName])"
| "setFilterDate env (img # images) imgName =
     (case setFilterDateNames env img (Names img) imgName of
        Some result \<Rightarrow> result
      | None \<Rightarrow> setFilterDate env images imgName)"

text \<open>
  Reading \<open>pair[i]\<close>: a Go slice index out of range panics.
\<close>

definition index :: "'a list \<Rightarrow> nat \<Rightarrow> failure + 'a" where
  "index xs i = (if i < length xs then Inr (xs ! i) else Inl PanicIndexOutOfRange)"

definition newFilterParams :: filterParams where
  "newFilterParams =
     \<lparr>dangling = [], label = [], beforeImage = [], sinceImage = [],
      beforeDate = zeroTime, sinceDate = zeroTime, referencePattern = [], readOnly = []\<rparr>"

text \<open>
  One round of the loop of \<open>parseFilter\<close>, on the clause \<open>param\<close>. A panic of
  \<open>setFilterDate\<close> passes through; an error it returns is dropped and another one
  returned in its place.
\<close>

definition parseFilterParam ::
  "Env \<Rightarrow> Image list \<Rightarrow> filterParams \<Rightarrow> string \<Rightarrow> failure + filterParams" where
  "parseFilterParam env images params param =
     (let pair = SplitN param (CHR ''='') 2;
          key = TrimSpace (pair ! 0)
      in
        if key = ''dangling'' then
          (case index pair 1 of
             Inl panic \<Rightarrow> Inl panic
           | Inr v \<Rightarrow>
               if v = ''true'' \<or> v = ''false'' then Inr (params\<lparr>dangling := v\<rparr>)
               else Inl (Errorf (''invalid filter: '' @ [CHR 0x27] @ ''%s=[%s]'' @ [CHR 0x27])
                           [pair ! 0, v]))
        else if key = ''label'' then
          (case index pair 1 of
             Inl panic \<Rightarrow> Inl panic
           | Inr v \<Rightarrow> Inr (params\<lparr>label := v\<rparr>))
        else if key = ''before'' then
          (case index pair 1 of
             Inl panic \<Rightarrow> Inl panic
           | Inr v \<Rightarrow>
               (case setFilterDate env images v of
                  Inr date \<Rightarrow> Inr (params\<lparr>beforeDate := date, beforeImage := v\<rparr>)
                | Inl err \<Rightarrow>
                    if isPanic err then Inl err
                    else Inl (Errorf ''no such id: %s'' [pair ! 0])))
        else if key = ''since'' then
          (case index pair 1 of
             Inl panic \<Rightarrow> Inl panic
           | Inr v \<Rightarrow>
               (case setFilterDate env images v of
                  Inr date \<Rightarrow> Inr (params\<lparr>sinceDate := date, sinceImage := v\<rparr>)
                | Inl err \<Rightarrow>
                    if isPanic err then Inl err
                    else Inl (Errorf ''no such id: %s'' [pair ! 0])))
        else if key = ''reference'' then
          (case index pair 1 of
             Inl panic \<Rightarrow> Inl panic
           | Inr v \<Rightarrow> Inr (params\<lparr>referencePattern := v\<rparr>))
        else if key = ''readonly'' then
          (case index pair 1 of
             Inl panic \<Rightarrow> Inl panic
           | Inr v \<Rightarrow>
               if v = ''true'' \<or> v = ''false'' then Inr (params\<lparr>readOnly := v\<rparr>)
               else Inl (Errorf (''invalid filter: '' @ [CHR 0x27] @ ''%s=[%s]'' @ [CHR 0x27])
                           [pair ! 0, v]))
        else Inl (Errorf (''invalid filter: '' @ [CHR 0x27] @ ''%s'' @ [CHR 0x27]) [pair ! 0]))"

fun parseFilterLoop ::
  "Env \<Rightarrow> Image list \<Rightarrow> filterParams \<Rightarrow> string list \<Rightarrow> failure + filterParams" where
  "parseFilterLoop env images params [] = Inr params"
| "parseFilterLoop env images params (param # filterStrings) =
     (case parseFilterParam env images params param of
        Inl err \<Rightarrow> Inl err
      | Inr params' \<Rightarrow> parseFilterLoop env images params' filterStrings)"

definition parseFilter :: "Env \<Rightarrow> Image list \<Rightarrow> string \<Rightarrow> failure + filterParams" where
  "parseFilter env images filterStr =
     parseFilterLoop env images newFilterParams (Split filterStr (CHR '',''))"

section \<open>Properties\<close>

subsection \<open>ID-map conversions\<close>

lemma uint_eq_sint_nonneg:
  fixes x :: "64 word"
  assumes "0 \<le> sint x"
  shows "uint x = sint x"
proof -
  have up: "sint x < 2 ^ 64"
    using sint_less [of x] by simp
  have "uint x = uint (word_of_int (sint x) :: 64 word)"
    by simp
  also have "\<dots> = take_bit 64 (sint x)"
    by (simp only: uint_word_of_int_eq len_bit0 len_num1) simp
  also have "\<dots> = sint x"
    using assms up by (simp add: take_bit_int_eq_self)
  finally show ?thesis .
qed

lemma fits32_take_bit:
  assumes "fits32 x"
  shows "take_bit 32 x = x"
proof -
  from assms have "0 \<le> uint x" and "uint x < 2 ^ 32"
    by (simp_all add: fits32_def uint_eq_sint_nonneg)
  then have "uint (take_bit 32 x) = uint x"
    by (simp add: unsigned_take_bit_eq take_bit_int_eq_self)
  then show ?thesis
    by (rule word_uint_eqI)
qed

lemma ucast_down_up:
  fixes x :: "64 word"
  shows "(ucast (ucast x :: 32 word) :: 64 word) = take_bit 32 x"
  by (rule bit_word_eqI) (auto simp add: bit_simps)

lemma toIDMap_toLinuxIDMapping:
  assumes "idmapFits32 m"
  shows "toIDMap (toLinuxIDMapping m) = m"
  using assms
  by (simp add: idmapFits32_def toIDMap_def toLinuxIDMapping_def ucast_down_up fits32_take_bit)

lemma map_toIDMap_toLinuxIDMapping:
  assumes "\<forall>m \<in> set ms. idmapFits32 m"
  shows "map (toIDMap \<circ> toLinuxIDMapping) ms = ms"
  using assms by (induction ms) (simp_all add: toIDMap_toLinuxIDMapping)

text \<open>
  C10. On UID and GID maps whose HostID, ContainerID and Size are all non-negative and fit in
  32 bits, converting to the runtime form with \<open>convertStorageIDMaps\<close> and back with
  \<open>convertRuntimeIDMaps\<close> returns the two original lists.
\<close>

theorem convert_IDMaps_roundtrip:
  assumes "\<forall>m \<in> set UIDMap. idmapFits32 m" and "\<forall>m \<in> set GIDMap. idmapFits32 m"
  shows "(case convertStorageIDMaps UIDMap GIDMap of
            (uidmap, gidmap) \<Rightarrow> convertRuntimeIDMaps uidmap gidmap) = (UIDMap, GIDMap)"
  using assms
  by (simp add: convertStorageIDMaps_def convertRuntimeIDMaps_def map_toIDMap_toLinuxIDMapping)

theorem convert_IDMaps_roundtrip_witness:
  "idmapFits32 \<lparr>IDMap.ContainerID = 0, IDMap.HostID = 100000, IDMap.Size = 65536\<rparr>
   \<and> idmapFits32 \<lparr>IDMap.ContainerID = 0, IDMap.HostID = 4294967295, IDMap.Size = 1\<rparr>
   \<and> (case convertStorageIDMaps
               [\<lparr>IDMap.ContainerID = 0, IDMap.HostID = 100000, IDMap.Size = 65536\<rparr>]
               [\<lparr>IDMap.ContainerID = 0, IDMap.HostID = 4294967295, IDMap.Size = 1\<rparr>] of
         (uidmap, gidmap) \<Rightarrow> convertRuntimeIDMaps uidmap gidmap)
       = ([\<lparr>IDMap.ContainerID = 0, IDMap.HostID = 100000, IDMap.Size = 65536\<rparr>],
          [\<lparr>IDMap.ContainerID = 0, IDMap.HostID = 4294967295, IDMap.Size = 1\<rparr>])"
proof -
  have u: "idmapFits32 \<lparr>IDMap.ContainerID = 0, IDMap.HostID = 100000, IDMap.Size = 65536\<rparr>"
    by (simp add: idmapFits32_def fits32_def)
  have g: "idmapFits32 \<lparr>IDMap.ContainerID = 0, IDMap.HostID = 4294967295, IDMap.Size = 1\<rparr>"
    by (simp add: idmapFits32_def fits32_def)
  from u g
    convert_IDMaps_roundtrip
      [of "[\<lparr>IDMap.ContainerID = 0, IDMap.HostID = 100000, IDMap.Size = 65536\<rparr>]"
          "[\<lparr>IDMap.ContainerID = 0, IDMap.HostID = 4294967295, IDMap.Size = 1\<rparr>]"]
  show ?thesis
    by simp
qed

subsection \<open>The before and since predicates\<close>

text \<open>
  C7. An image whose recorded creation time is the zero time passes both
  \<open>matchesBeforeImage\<close> and \<open>matchesSinceImage\<close> whatever the reference timestamp is; an
  image with a nonzero creation time passes \<open>matchesBeforeImage\<close> exactly when it was
  created strictly before the reference timestamp, and \<open>matchesSinceImage\<close> exactly when it
  was created strictly after it.
\<close>

theorem matchesBeforeSince_spec:
  "(IsZero (Created img) \<longrightarrow> matchesBeforeImage img params \<and> matchesSinceImage img params)
   \<and> (\<not> IsZero (Created img) \<longrightarrow>
        (matchesBeforeImage img params \<longleftrightarrow> Before (Created img) (beforeDate params))
      \<and> (matchesSinceImage img params \<longleftrightarrow> After (Created img) (sinceDate params)))"
  by (simp add: matchesBeforeImage_def matchesSinceImage_def)

theorem matchesBeforeSince_spec_witness:
  "IsZero (Created \<lparr>ID = ''a1'', Names = [], Digest = [], Digests = [],
                         Created = \<lparr>sec = 0, nsec = 0\<rparr>, ReadOnly = False\<rparr>)
   \<and> matchesBeforeImage
        \<lparr>ID = ''a1'', Names = [], Digest = [], Digests = [],
           Created = \<lparr>sec = 0, nsec = 0\<rparr>, ReadOnly = False\<rparr>
        \<lparr>dangling = [], label = [], beforeImage = ''ref'', sinceImage = ''ref'',
           beforeDate = \<lparr>sec = 50, nsec = 7\<rparr>, sinceDate = \<lparr>sec = 50, nsec = 7\<rparr>,
           referencePattern = [], readOnly = []\<rparr>
   \<and> matchesSinceImage
        \<lparr>ID = ''a1'', Names = [], Digest = [], Digests = [],
           Created = \<lparr>sec = 0, nsec = 0\<rparr>, ReadOnly = False\<rparr>
        \<lparr>dangling = [], label = [], beforeImage = ''ref'', sinceImage = ''ref'',
           beforeDate = \<lparr>sec = 50, nsec = 7\<rparr>, sinceDate = \<lparr>sec = 50, nsec = 7\<rparr>,
           referencePattern = [], readOnly = []\<rparr>
   \<and> \<not> IsZero (Created \<lparr>ID = ''b2'', Names = [], Digest = [], Digests = [],
                           Created = \<lparr>sec = 50, nsec = 3\<rparr>, ReadOnly = False\<rparr>)
   \<and> matchesBeforeImage
        \<lparr>ID = ''b2'', Names = [], Digest = [], Digests = [],
           Created = \<lparr>sec = 50, nsec = 3\<rparr>, ReadOnly = False\<rparr>
        \<lparr>dangling = [], label = [], beforeImage = ''ref'', sinceImage = ''ref'',
           beforeDate = \<lparr>sec = 50, nsec = 7\<rparr>, sinceDate = \<lparr>sec = 50, nsec = 7\<rparr>,
           referencePattern = [], readOnly = []\<rparr>
   \<and> \<not> matchesSinceImage
        \<lparr>ID = ''b2'', Names = [], Digest = [], Digests = [],
           Created = \<lparr>sec = 50, nsec = 3\<rparr>, ReadOnly = False\<rparr>
        \<lparr>dangling = [], label = [], beforeImage = ''ref'', sinceImage = ''ref'',
           beforeDate = \<lparr>sec = 50, nsec = 7\<rparr>, sinceDate = \<lparr>sec = 50, nsec = 7\<rparr>,
           referencePattern = [], readOnly = []\<rparr>"
  using
    matchesBeforeSince_spec
      [of "\<lparr>ID = ''a1'', Names = [], Digest = [], Digests = [],
             Created = \<lparr>sec = 0, nsec = 0\<rparr>, ReadOnly = False\<rparr>"
          "\<lparr>dangling = [], label = [], beforeImage = ''ref'', sinceImage = ''ref'',
             beforeDate = \<lparr>sec = 50, nsec = 7\<rparr>, sinceDate = \<lparr>sec = 50, nsec = 7\<rparr>,
             referencePattern = [], readOnly = []\<rparr>"]
    matchesBeforeSince_spec
      [of "\<lparr>ID = ''b2'', Names = [], Digest = [], Digests = [],
             Created = \<lparr>sec = 50, nsec = 3\<rparr>, ReadOnly = False\<rparr>"
          "\<lparr>dangling = [], label = [], beforeImage = ''ref'', sinceImage = ''ref'',
             beforeDate = \<lparr>sec = 50, nsec = 7\<rparr>, sinceDate = \<lparr>sec = 50, nsec = 7\<rparr>,
             referencePattern = [], readOnly = []\<rparr>"]
  by (simp add: IsZero_def Before_def After_def)

end
